theory Spec2Isabelle
  imports
    Main
    "HOL-Library.Char_ord"
    "HOL-Library.List_Lexorder"
    "HOL-Library.Product_Lexorder"
    "HOL-Library.Multiset"
begin

section \<open>Python strings and formatting\<close>

text \<open>
  Strings are \<open>char list\<close>. With \<open>Char_ord\<close> and \<open>List_Lexorder\<close> the order on
  strings is the lexicographic order by character code, which is how Python compares
  \<open>str\<close> values; with \<open>Product_Lexorder\<close> pairs compare like Python tuples.
\<close>

definition newline :: string where
  "newline = [CHR 0x0A]"

text \<open>\<open>sep.join(xs)\<close>\<close>

fun join :: "string \<Rightarrow> string list \<Rightarrow> string" where
  "join sep [] = []"
| "join sep [x] = x"
| "join sep (x # y # ys) = x @ sep @ join sep (y # ys)"

text \<open>\<open>s.split(sep)\<close> for a one-character separator: the accumulator \<open>cur\<close> holds the
  characters of the segment being read.\<close>

fun split_acc :: "char \<Rightarrow> string \<Rightarrow> string \<Rightarrow> string list" where
  "split_acc sep cur [] = [cur]"
| "split_acc sep cur (c # cs) =
     (if c = sep then cur # split_acc sep [] cs else split_acc sep (cur @ [c]) cs)"

definition split_str :: "char \<Rightarrow> string \<Rightarrow> string list" where
  "split_str sep s = split_acc sep [] s"

text \<open>\<open>s.upper()\<close> on ASCII text: the letters a..z move to A..Z, every other character
  stays.\<close>

definition upper_char :: "char \<Rightarrow> char" where
  "upper_char c =
     (if CHR ''a'' \<le> c \<and> c \<le> CHR ''z'' then char_of (of_char c - (32::nat)) else c)"

definition upper :: "string \<Rightarrow> string" where
  "upper s = map upper_char s"

text \<open>\<open>s.replace(old, new)\<close> for a one-character \<open>old\<close>.\<close>

definition replace_char :: "char \<Rightarrow> string \<Rightarrow> string \<Rightarrow> string" where
  "replace_char old new s = concat (map (\<lambda>c. if c = old then new else [c]) s)"

text \<open>\<open>s.endswith(suffix)\<close>\<close>

definition endswith :: "string \<Rightarrow> string \<Rightarrow> bool" where
  "endswith s suffix = (length suffix \<le> length s \<and> drop (length s - length suffix) s = suffix)"

text \<open>\<open>s.strip()\<close>: leading and trailing whitespace removed; among the ASCII
  characters Python counts the six below and the separators 0x1C to 0x1F.\<close>

definition is_space :: "char \<Rightarrow> bool" where
  "is_space c =
     (c \<in> set [CHR 0x20, CHR 0x09, CHR 0x0A, CHR 0x0B, CHR 0x0C, CHR 0x0D,
                CHR 0x1C, CHR 0x1D, CHR 0x1E, CHR 0x1F])"

definition strip :: "string \<Rightarrow> string" where
  "strip s = rev (dropWhile is_space (rev (dropWhile is_space s)))"

text \<open>Decimal digits of a non-negative integer, as \<open>str(n)\<close> gives them.\<close>

definition digit_char :: "int \<Rightarrow> char" where
  "digit_char d = ''0123456789'' ! nat d"

function dec_digits :: "int \<Rightarrow> string" where
  "dec_digits n =
     (if n < 10 then [digit_char n] else dec_digits (n div 10) @ [digit_char (n mod 10)])"
  by pat_completeness auto
termination
  by (relation "measure nat") auto

declare dec_digits.simps [simp del]

text \<open>Thousands separators, on the reversed digit string.\<close>

fun commas_rev :: "string \<Rightarrow> string" where
  "commas_rev (a # b # c # d # rest) = a # b # c # CHR '','' # commas_rev (d # rest)"
| "commas_rev ds = ds"

text \<open>\<open>"{:,}".format(n)\<close>\<close>

definition format_thousands :: "int \<Rightarrow> string" where
  "format_thousands n =
     (if n < 0 then ''-'' else []) @ rev (commas_rev (rev (dec_digits \<bar>n\<bar>)))"

text \<open>\<open>"{:w}".format(s)\<close> for a string pads on the right, \<open>"{:>w}"\<close> on the left;
  neither truncates.\<close>

definition ljust :: "nat \<Rightarrow> string \<Rightarrow> string" where
  "ljust w s = s @ replicate (w - length s) CHR '' ''"

definition rjust :: "nat \<Rightarrow> string \<Rightarrow> string" where
  "rjust w s = replicate (w - length s) CHR '' '' @ s"

section \<open>Split statistics\<close>

text \<open>
  \<open>info.splits\<close>: the mapping from split name to split information, in the order
  \<open>items()\<close> yields it, and the attribute \<open>total_num_examples\<close>, which may be unset
  (\<open>None\<close>).
\<close>

record split_info =
  num_examples :: int

record split_dict =
  split_items :: "(string \<times> split_info) list"
  total_num_examples :: "int option"

text \<open>\<open>STATISTICS_TABLE.format(split_statistics=stats)\<close>\<close>

definition STATISTICS_TABLE :: "string \<Rightarrow> string" where
  "STATISTICS_TABLE split_statistics =
     ''Split  | Examples'' @ newline @
     '':----- | ---:'' @ newline @
     split_statistics @ newline"

text \<open>\<open>"{0:10} | {1:>10,}".format(name, num_exs)\<close>\<close>

definition stats_row :: "int \<times> string \<Rightarrow> string" where
  "stats_row r = ljust 10 (snd r) @ '' | '' @ rjust 10 (format_thousands (fst r))"

text \<open>\<open>stats.sort(reverse=True)\<close>: a stable sort into descending order, which is the
  stable ascending sort of the reversed list, reversed.\<close>

definition sort_reverse :: "('a::linorder) list \<Rightarrow> 'a list" where
  "sort_reverse xs = rev (sort (rev xs))"

text \<open>The list \<open>stats\<close> of \<open>make_statistics_information\<close> before and after the sort.\<close>

definition stats_unsorted :: "split_dict \<Rightarrow> int \<Rightarrow> (int \<times> string) list" where
  "stats_unsorted sp n =
     (n, ''ALL'') # map (\<lambda>(split_name, si). (num_examples si, upper split_name)) (split_items sp)"

definition stats_sorted :: "split_dict \<Rightarrow> int \<Rightarrow> (int \<times> string) list" where
  "stats_sorted sp n = sort_reverse (stats_unsorted sp n)"

text \<open>The guard \<open>not info.splits.total_num_examples\<close> holds for \<open>None\<close> and for \<open>0\<close>.\<close>

definition make_statistics_information :: "split_dict \<Rightarrow> string" where
  "make_statistics_information sp =
     (case total_num_examples sp of
        None \<Rightarrow> ''None computed''
      | Some n \<Rightarrow>
          if n = 0 then ''None computed''
          else STATISTICS_TABLE (join newline (map stats_row (stats_sorted sp n))))"

section \<open>Feature schemas\<close>

text \<open>
  A \<open>FeaturesDict\<close> maps feature names to features. A feature is either a leaf, kept
  as the text \<open>str(v)\<close> gives for it, or a nested \<open>FeaturesDict\<close>. The first
  argument of \<open>FeaturesDict\<close> is \<open>type(features_dict).__name__\<close>, the name of the
  class of the container (a subclass of \<open>FeaturesDict\<close> has its own); the second is
  the mapping, as the list of its items.
\<close>

datatype feature = Leaf string | Nested features_dict
  and features_dict = FeaturesDict string "(string \<times> feature) list"

text \<open>
  \<open>_pprint_features_dict(features_dict, indent=0, add_prefix=True)\<close>. The loop runs
  over \<open>sorted(list(features_dict.keys()))\<close> and reads \<open>features_dict[k]\<close>; a key of
  the mapping is always found, so the \<open>None\<close> branch of the lookup is never taken.
\<close>

function pprint_features_dict :: "features_dict \<Rightarrow> nat \<Rightarrow> bool \<Rightarrow> string" where
  "pprint_features_dict (FeaturesDict tn kvs) indent add_prefix =
     (let first_last_indent_str = replicate indent CHR '' '';
          indent_str = replicate (indent + 4) CHR '' '';
          first_line = (if add_prefix then first_last_indent_str else []) @ tn @ ''({'';
          entry = (\<lambda>k.
            let v_str = (case map_of kvs k of
                           Some (Nested d) \<Rightarrow> pprint_features_dict d (indent + 4) False
                         | Some (Leaf s) \<Rightarrow> s
                         | None \<Rightarrow> [])
            in indent_str @ [CHR 0x27] @ k @ [CHR 0x27] @ '': '' @ v_str @ '','');
          lines = [first_line] @ map entry (sort (map fst kvs)) @ [first_last_indent_str @ ''})'']
      in join newline lines)"
  by pat_completeness auto
termination
proof -
  have smaller: "size v < Suc (size_list (size_prod (\<lambda>_. 0) size) kvs)"
    if "map_of kvs k = Some v" for kvs :: "(string \<times> feature) list" and k v
    using that by (induction kvs) (auto split: if_splits)
  show ?thesis
    apply (relation "measure (\<lambda>(d, i, p). size d)")
     apply simp
    apply (frule smaller)
    apply simp
    done
qed

declare pprint_features_dict.simps [simp del]

text \<open>
  Two schema objects that hold the same mapping, whatever the order of their items: the
  same type name, distinct keys, the same set of keys, and under every key the same leaf
  text or, recursively, the same nested mapping.
\<close>

inductive same_feature :: "feature \<Rightarrow> feature \<Rightarrow> bool"
  and same_schema :: "features_dict \<Rightarrow> features_dict \<Rightarrow> bool" where
  same_leaf: "same_feature (Leaf s) (Leaf s)"
| same_nested: "same_schema d d' \<Longrightarrow> same_feature (Nested d) (Nested d')"
| same_dict:
    "distinct (map fst kvs) \<Longrightarrow> distinct (map fst kvs') \<Longrightarrow>
     set (map fst kvs) = set (map fst kvs') \<Longrightarrow>
     (\<forall>k \<in> set (map fst kvs).
        \<exists>v v'. map_of kvs k = Some v \<and> map_of kvs' k = Some v' \<and> same_feature v v') \<Longrightarrow>
     same_schema (FeaturesDict tn kvs) (FeaturesDict tn kvs')"

section \<open>Builders, info records and the registry\<close>

text \<open>
  \<open>info.supervised_keys\<close> is kept as the text \<open>str(info.supervised_keys)\<close> gives, and
  \<open>info.version\<close> as the text \<open>"{version}"\<close> formats; the renderers use them in no other
  way.
\<close>

record dataset_info =
  description :: string
  version :: string
  urls :: "string list"
  size_in_bytes :: int
  supervised_keys :: string
  citation :: string
  features :: features_dict
  splits :: split_dict

record builder_config =
  config_name :: string
  config_version :: string
  config_description :: string

text \<open>
  A builder object, with what the script reads of it: \<open>builder.name\<close>,
  \<open>builder.__class__.__module__\<close>, \<open>builder.__class__.__name__\<close>,
  \<open>builder.builder_configs\<close> (a dict from configuration name to configuration),
  \<open>builder.BUILDER_CONFIGS\<close>, \<open>type(builder.builder_config).__name__\<close> and
  \<open>builder.info\<close>.
\<close>

record builder =
  name :: string
  module :: string
  cls_name :: string
  builder_configs :: "(string \<times> builder_config) list"
  BUILDER_CONFIGS :: "builder_config list"
  builder_config_cls :: string
  info :: dataset_info

datatype error =
  KeyError | IndexError | UnboundLocalError | AttributeError | TypeError | DatasetNotFoundError

text \<open>The keyword arguments \<open>tfds.builder\<close> is called with, beside the name.\<close>

datatype builder_kwargs = NoKwargs | Config builder_config | DatasetName string

text \<open>
  What the script consumes from outside: \<open>tfds.list_builders()\<close>,
  \<open>tfds.builder(name, **kwargs)\<close> (which may raise), \<open>tfds.units.size_str\<close>,
  \<open>sys.modules[m].__file__\<close> (a \<open>KeyError\<close> when the module is not loaded),
  \<open>py_utils.tfds_dir()\<close> and \<open>os.path.relpath\<close>.
\<close>

record env =
  list_builders :: "string list"
  tfds_builder :: "string \<Rightarrow> builder_kwargs \<Rightarrow> error + builder"
  size_str :: "int \<Rightarrow> string"
  sys_modules_file :: "string \<Rightarrow> string option"
  tfds_dir :: string
  relpath :: "string \<Rightarrow> string \<Rightarrow> string"

text \<open>A list comprehension whose element expression may raise: the first error ends it.\<close>

fun map_err :: "('a \<Rightarrow> error + 'b) \<Rightarrow> 'a list \<Rightarrow> error + 'b list" where
  "map_err f [] = Inr []"
| "map_err f (x # xs) =
     (case f x of
        Inl e \<Rightarrow> Inl e
      | Inr y \<Rightarrow> (case map_err f xs of Inl e \<Rightarrow> Inl e | Inr ys \<Rightarrow> Inr (y # ys)))"

section \<open>Templates\<close>

definition BASE_URL :: string where
  "BASE_URL = ''https://github.com/tensorflow/datasets/tree/master/tensorflow_datasets''"

definition BUILDER_BLACKLIST :: "string list" where
  "BUILDER_BLACKLIST = [''image_label_folder'']"

text \<open>The single quote of the Python text, which a HOL string literal cannot hold.\<close>

definition sq :: string where
  "sq = [CHR 0x27]"



text \<open>\<open>CONFIG_BULLET.format(name=, description=, version=, size=)\<close>\<close>

definition CONFIG_BULLET :: "string \<Rightarrow> string \<Rightarrow> string \<Rightarrow> string \<Rightarrow> string" where
  \<open>CONFIG_BULLET cname cdescription cversion csize =
     ''* `"'' @ cname @ ''"` (`v'' @ cversion @ ''`) (`Size: '' @ csize @ ''`): '' @
     cdescription @ newline\<close>

text \<open>\<open>SINGLE_CONFIG_ENTRY\<close> uses \<open>builder_name\<close>, \<open>config_name\<close> and
  \<open>feature_information\<close> only; the other keyword arguments the script passes
  (\<open>description\<close>, \<open>version\<close>, \<open>size\<close>) are not in the template.\<close>

definition SINGLE_CONFIG_ENTRY :: "string \<Rightarrow> string \<Rightarrow> string \<Rightarrow> string" where
  \<open>SINGLE_CONFIG_ENTRY builder_name cname feature_information =
     ''#### `"'' @ builder_name @ ''/'' @ cname @ ''"`'' @ newline @
     newline @
     feature_information @ newline @
     newline\<close>

text \<open>\<open>FEATURE_BLOCK % s\<close> and \<open>CITATION_BLOCK % s\<close>\<close>

definition FEATURE_BLOCK :: "string \<Rightarrow> string" where
  \<open>FEATURE_BLOCK s =
     ''```python'' @ newline @
     s @ newline @
     ''```'' @ newline\<close>

definition CITATION_BLOCK :: "string \<Rightarrow> string" where
  \<open>CITATION_BLOCK s =
     ''#### Citation'' @ newline @
     ''```'' @ newline @
     s @ newline @
     ''```'' @ newline\<close>

text \<open>The keyword arguments of \<open>DATASET_WITH_CONFIGS_ENTRY.format\<close>, in the order the
  script writes (and Python evaluates) them.\<close>

record with_configs_kwargs =
  wc_snakecase_name :: string
  wc_module_and_class :: string
  wc_cls_url :: string
  wc_config_names :: string
  wc_config_cls :: string
  wc_configs :: string
  wc_urls :: string
  wc_url :: string
  wc_supervised_keys :: string
  wc_citation :: string
  wc_statistics_information :: string
  wc_description :: string
  wc_description_prefix :: string

definition DATASET_WITH_CONFIGS_ENTRY :: "with_configs_kwargs \<Rightarrow> string" where
  \<open>DATASET_WITH_CONFIGS_ENTRY kw =
     ''### `"'' @ wc_snakecase_name kw @ ''"`'' @ newline @
     newline @
     wc_description_prefix kw @ wc_description kw @ newline @
     newline @
     ''* URL: ['' @ wc_url kw @ ''](''  @ wc_url kw @ '')'' @ newline @
     ''* `DatasetBuilder`: [`'' @ wc_module_and_class kw @ ''`]('' @ wc_cls_url kw @ '')'' @ newline @
     newline @
     ''`'' @ wc_snakecase_name kw @ ''` is configured with `'' @ wc_config_cls kw @
       ''` and has the following'' @ newline @
     ''configurations predefined (defaults to the first one):'' @ newline @
     newline @
     wc_config_names kw @ newline @
     newline @
     wc_configs kw @ newline @
     newline @
     ''#### Statistics'' @ newline @
     wc_statistics_information kw @ newline @
     newline @
     ''#### Urls'' @ newline @
     wc_urls kw @ newline @
     newline @
     ''#### Supervised keys (for `as_supervised=True`)'' @ newline @
     ''`'' @ wc_supervised_keys kw @ ''`'' @ newline @
     newline @
     wc_citation kw @ newline @
     ''---'' @ newline\<close>

text \<open>The keyword arguments of \<open>DATASET_ENTRY.format\<close>.\<close>

record entry_kwargs =
  en_snakecase_name :: string
  en_module_and_class :: string
  en_cls_url :: string
  en_description :: string
  en_description_prefix :: string
  en_version :: string
  en_feature_information :: string
  en_statistics_information :: string
  en_urls :: string
  en_url :: string
  en_supervised_keys :: string
  en_citation :: string
  en_size :: string

definition DATASET_ENTRY :: "entry_kwargs \<Rightarrow> string" where
  \<open>DATASET_ENTRY kw =
     ''### `"'' @ en_snakecase_name kw @ ''"`'' @ newline @
     newline @
     en_description_prefix kw @ en_description kw @ newline @
     newline @
     ''* URL: ['' @ en_url kw @ ''](''  @ en_url kw @ '')'' @ newline @
     ''* `DatasetBuilder`: [`'' @ en_module_and_class kw @ ''`]('' @ en_cls_url kw @ '')'' @ newline @
     ''* Version: `v'' @ en_version kw @ ''`'' @ newline @
     ''* Size: `'' @ en_size kw @ ''`'' @ newline @
     newline @
     ''#### Features'' @ newline @
     en_feature_information kw @ newline @
     newline @
     ''#### Statistics'' @ newline @
     en_statistics_information kw @ newline @
     newline @
     ''#### Urls'' @ newline @
     en_urls kw @ newline @
     newline @
     ''#### Supervised keys (for `as_supervised=True`)'' @ newline @
     ''`'' @ en_supervised_keys kw @ ''`'' @ newline @
     newline @
     en_citation kw @ newline @
     ''---'' @ newline\<close>

text \<open>\<open>JSON_LD_STR.format(name=, description=, url=, size=)\<close>; the doubled braces of
  the Python text are the literal braces of the output.\<close>

definition JSON_LD_STR :: "string \<Rightarrow> string \<Rightarrow> string \<Rightarrow> string \<Rightarrow> string" where
  \<open>JSON_LD_STR jname jdescription jurl jsize =
     ''{'' @ newline @
     ''  "@context": "https://schema.org/",'' @ newline @
     ''  "@type": "Dataset",'' @ newline @
     ''  "name": "'' @ jname @ ''",'' @ newline @
     ''  "description": "'' @ jdescription @ ''",'' @ newline @
     ''  "url": '' @ jurl @ '','' @ newline @
     ''  "size:" '' @ jsize @ '','' @ newline @
     ''}'' @ newline\<close>

section \<open>Rendering one builder\<close>

text \<open>\<open>os.path.join(a, p)\<close> on POSIX, for two arguments.\<close>

definition os_path_join :: "string \<Rightarrow> string \<Rightarrow> string" where
  "os_path_join a p =
     (if p \<noteq> [] \<and> hd p = CHR ''/'' then p
      else if a = [] \<or> last a = CHR ''/'' then a @ p
      else a @ ''/'' @ p)"

definition cls_url :: "env \<Rightarrow> string \<Rightarrow> error + string" where
  "cls_url E module_name =
     (case sys_modules_file E module_name of
        None \<Rightarrow> Inl KeyError
      | Some mod_file \<Rightarrow>
          let mod_file' = (if endswith mod_file ''pyc'' then butlast mod_file else mod_file);
              path = relpath E mod_file' (tfds_dir E)
          in Inr (os_path_join BASE_URL path))"

definition tfds_mod_name :: "string \<Rightarrow> string" where
  "tfds_mod_name mod_name =
     (let parts = split_str CHR ''.'' mod_name in join ''.'' ([''tfds''] @ tl parts))"

text \<open>\<open>(info.urls and info.urls[0]) or "<no known url>"\<close>: an empty list is false, and so
  is an empty first URL.\<close>

definition url_from_info :: "dataset_info \<Rightarrow> string" where
  "url_from_info dinfo =
     (case urls dinfo of
        [] \<Rightarrow> ''<no known url>''
      | u # _ \<Rightarrow> if u = [] then ''<no known url>'' else u)"

definition format_urls :: "string list \<Rightarrow> string" where
  "format_urls us = join newline (map (\<lambda>url. '' * ['' @ url @ '']('' @ url @ '')'') us)"

definition make_feature_information :: "dataset_info \<Rightarrow> string" where
  "make_feature_information dinfo = FEATURE_BLOCK (pprint_features_dict (features dinfo) 0 True)"

definition make_citation :: "string \<Rightarrow> string" where
  "make_citation c = (if c \<noteq> [] then CITATION_BLOCK (strip c) else [])"

text \<open>
  The loop \<open>for config in builder.BUILDER_CONFIGS\<close> of \<open>document_single_builder\<close>. Its
  state is the variables it assigns: \<open>builder\<close>, \<open>info\<close> (unbound before the first
  iteration) and \<open>config_docs\<close>.
\<close>

fun config_loop ::
  "env \<Rightarrow> builder_config list \<Rightarrow> builder \<times> dataset_info option \<times> string list \<Rightarrow>
   error + (builder \<times> dataset_info option \<times> string list)" where
  "config_loop E [] st = Inr st"
| "config_loop E (config # rest) (b, dinfo, config_docs) =
     (case tfds_builder E (name b) (Config config) of
        Inl e \<Rightarrow> Inl e
      | Inr b' \<Rightarrow>
          let dinfo' = info b';
              config_doc = SINGLE_CONFIG_ENTRY (name b') (config_name config)
                             (make_feature_information dinfo')
          in config_loop E rest (b', Some dinfo', config_docs @ [config_doc]))"

text \<open>One element of the list comprehension that makes \<open>config_names\<close>.\<close>

definition config_bullet :: "env \<Rightarrow> builder \<Rightarrow> builder_config \<Rightarrow> error + string" where
  "config_bullet E b config =
     (case tfds_builder E (name b) (Config config) of
        Inl e \<Rightarrow> Inl e
      | Inr b' \<Rightarrow>
          Inr (CONFIG_BULLET (config_name config) (config_description config)
                 (config_version config) (size_str E (size_in_bytes (info b')))))"

text \<open>The keyword arguments of the two \<open>format\<close> calls of \<open>document_single_builder\<close>,
  evaluated in the order written.\<close>

definition with_configs_args :: "env \<Rightarrow> builder \<Rightarrow> error + with_configs_kwargs" where
  "with_configs_args E builder0 =
     (let mod_name = module builder0; cls = cls_name builder0 in
      case config_loop E (BUILDER_CONFIGS builder0) (builder0, None, []) of
        Inl e \<Rightarrow> Inl e
      | Inr (b, info_opt, config_docs) \<Rightarrow>
          (case cls_url E mod_name of
             Inl e \<Rightarrow> Inl e
           | Inr cu \<Rightarrow>
               (case map_err (config_bullet E b) (BUILDER_CONFIGS b) of
                  Inl e \<Rightarrow> Inl e
                | Inr bullets \<Rightarrow>
                    (case info_opt of
                       None \<Rightarrow> Inl UnboundLocalError
                     | Some dinfo \<Rightarrow>
                         Inr \<lparr> wc_snakecase_name = name b,
                               wc_module_and_class = tfds_mod_name mod_name @ ''.'' @ cls,
                               wc_cls_url = cu,
                               wc_config_names = join newline bullets,
                               wc_config_cls = tfds_mod_name mod_name @ ''.'' @ builder_config_cls b,
                               wc_configs = join newline config_docs,
                               wc_urls = format_urls (urls dinfo),
                               wc_url = url_from_info dinfo,
                               wc_supervised_keys = supervised_keys dinfo,
                               wc_citation = make_citation (citation dinfo),
                               wc_statistics_information = make_statistics_information (splits dinfo),
                               wc_description = description (info b),
                               wc_description_prefix = [] \<rparr>))))"

definition entry_args :: "env \<Rightarrow> builder \<Rightarrow> error + entry_kwargs" where
  "entry_args E b =
     (let mod_name = module b; cls = cls_name b; dinfo = info b in
      case cls_url E mod_name of
        Inl e \<Rightarrow> Inl e
      | Inr cu \<Rightarrow>
          Inr \<lparr> en_snakecase_name = name b,
                en_module_and_class = tfds_mod_name mod_name @ ''.'' @ cls,
                en_cls_url = cu,
                en_description = description dinfo,
                en_description_prefix = [],
                en_version = version dinfo,
                en_feature_information = make_feature_information dinfo,
                en_statistics_information = make_statistics_information (splits dinfo),
                en_urls = format_urls (urls dinfo),
                en_url = url_from_info dinfo,
                en_supervised_keys = supervised_keys dinfo,
                en_citation = make_citation (citation dinfo),
                en_size = size_str E (size_in_bytes dinfo) \<rparr>)"

text \<open>
  \<open>document_single_builder(builder)\<close>. The first statement reads
  \<open>sys.modules[mod_name].__file__\<close>, which raises \<open>KeyError\<close> for a module that is not
  loaded; the truth value of the dict \<open>builder.builder_configs\<close> chooses the branch.
\<close>

definition document_single_builder :: "env \<Rightarrow> builder \<Rightarrow> error + string" where
  "document_single_builder E b =
     (case sys_modules_file E (module b) of
        None \<Rightarrow> Inl KeyError
      | Some mod_file \<Rightarrow>
          if builder_configs b \<noteq> [] then
            (case with_configs_args E b of
               Inl e \<Rightarrow> Inl e
             | Inr kw \<Rightarrow> Inr (DATASET_WITH_CONFIGS_ENTRY kw))
          else
            (case entry_args E b of
               Inl e \<Rightarrow> Inl e
             | Inr kw \<Rightarrow> Inr (DATASET_ENTRY kw)))"

section \<open>Grouping builders by module\<close>

text \<open>
  \<open>module_to_builder\<close> is a \<open>defaultdict\<close> of \<open>defaultdict\<close> of \<open>defaultdict(list)\<close>:
  three levels of keys above the lists of builders. A dict is the list of its items in
  insertion order, with distinct keys.
\<close>

type_synonym leaf_dict = "(string \<times> builder list) list"
type_synonym section_dict = "(string \<times> leaf_dict) list"
type_synonym root_dict = "(string \<times> section_dict) list"

text \<open>\<open>d[k]\<close> on a \<open>defaultdict\<close> whose default value is \<open>dflt\<close>, read only.\<close>

fun dd_get :: "string \<Rightarrow> 'v \<Rightarrow> (string \<times> 'v) list \<Rightarrow> 'v" where
  "dd_get k dflt [] = dflt"
| "dd_get k dflt ((k', v) # rest) = (if k = k' then v else dd_get k dflt rest)"

text \<open>\<open>d[k]\<close> on a \<open>defaultdict\<close> followed by a change \<open>f\<close> of the value found: a missing
  key is inserted last, with the changed default.\<close>

fun dd_update :: "string \<Rightarrow> ('v \<Rightarrow> 'v) \<Rightarrow> 'v \<Rightarrow> (string \<times> 'v) list \<Rightarrow> (string \<times> 'v) list" where
  "dd_update k f dflt [] = [(k, f dflt)]"
| "dd_update k f dflt ((k', v) # rest) =
     (if k = k' then (k', f v) # rest else (k', v) # dd_update k f dflt rest)"

text \<open>
  The inner loop \<open>for mod in modules: current_mod_ctr = current_mod_ctr[mod]\<close> and the
  \<open>append\<close>. With three segments the walk ends on a list. With fewer it ends on a
  \<open>defaultdict\<close>, which has no \<open>append\<close> (\<open>AttributeError\<close>); with more, the fourth step
  indexes a list by a string (\<open>TypeError\<close>).
\<close>

fun add_builder :: "root_dict \<Rightarrow> string list \<Rightarrow> builder \<Rightarrow> error + root_dict" where
  "add_builder m [m1, m2, m3] b =
     Inr (dd_update m1 (dd_update m2 (dd_update m3 (\<lambda>bs. bs @ [b]) []) []) [] m)"
| "add_builder m (m1 # m2 # m3 # m4 # ms) b = Inl TypeError"
| "add_builder m ms b = Inl AttributeError"

text \<open>The loop \<open>for builder in builders\<close>.\<close>

fun group_loop :: "root_dict \<Rightarrow> builder list \<Rightarrow> error + root_dict" where
  "group_loop m [] = Inr m"
| "group_loop m (b # bs) =
     (let modules = split_str CHR ''.'' (module b) in
      if ''testing'' \<in> set modules then group_loop m bs
      else (case add_builder m modules b of
              Inl e \<Rightarrow> Inl e
            | Inr m' \<Rightarrow> group_loop m' bs))"

text \<open>The list \<open>builders\<close>: \<open>datasets\<close> is \<open>None\<close> or a list, and an empty list is
  false as \<open>None\<close> is.\<close>

definition collect_builders :: "env \<Rightarrow> string list option \<Rightarrow> error + builder list" where
  "collect_builders E datasets =
     (if datasets \<noteq> None \<and> datasets \<noteq> Some [] then
        map_err (\<lambda>n. tfds_builder E n NoKwargs) (the datasets)
      else
        (case map_err (\<lambda>n. tfds_builder E n NoKwargs)
                (filter (\<lambda>n. n \<notin> set BUILDER_BLACKLIST) (list_builders E)) of
           Inl e \<Rightarrow> Inl e
         | Inr bs \<Rightarrow>
             (case tfds_builder E ''image_label_folder'' (DatasetName ''image_label_folder'') of
                Inl e \<Rightarrow> Inl e
              | Inr b \<Rightarrow> Inr (bs @ [b]))))"

definition make_module_to_builder_dict :: "env \<Rightarrow> string list option \<Rightarrow> error + section_dict" where
  "make_module_to_builder_dict E datasets =
     (case collect_builders E datasets of
        Inl e \<Rightarrow> Inl e
      | Inr builders \<Rightarrow>
          (case group_loop [] builders of
             Inl e \<Rightarrow> Inl e
           | Inr module_to_builder \<Rightarrow> Inr (dd_get ''tensorflow_datasets'' [] module_to_builder)))"

section \<open>Assembling the document\<close>






section \<open>JSON-LD\<close>

text \<open>\<open>schema_org(builder)\<close>: \<open>info.urls[0]\<close> raises \<open>IndexError\<close> on an empty list.\<close>

definition schema_org :: "env \<Rightarrow> builder \<Rightarrow> error + string" where
  \<open>schema_org E b =
     (let dinfo = info b in
      case urls dinfo of
        [] \<Rightarrow> Inl IndexError
      | u # _ \<Rightarrow>
          Inr (JSON_LD_STR (name b) (description dinfo)
                 (replace_char (CHR 0x27) ''"'' u)
                 (size_str E (size_in_bytes dinfo))))\<close>

section \<open>Reading the grouping\<close>

text \<open>The builders held by a leaf dict and by a section dict, in the order of the
  items; used to state what the grouping contains.\<close>

definition leaf_builders :: "leaf_dict \<Rightarrow> builder list" where
  "leaf_builders ld = concat (map snd ld)"

definition grouped_builders :: "section_dict \<Rightarrow> builder list" where
  "grouped_builders sd = concat (map (\<lambda>kv. leaf_builders (snd kv)) sd)"

definition grouped_names :: "section_dict \<Rightarrow> string list" where
  "grouped_names sd = map name (grouped_builders sd)"

text \<open>The builders the loop of \<open>make_module_to_builder_dict\<close> leaves under the root key
  \<open>r\<close>: no module segment is \<open>testing\<close>, and the first segment is \<open>r\<close>.\<close>

definition kept_under :: "string \<Rightarrow> builder \<Rightarrow> bool" where
  "kept_under r b =
     (let modules = split_str CHR ''.'' (module b)
      in ''testing'' \<notin> set modules \<and> hd modules = r)"



section \<open>Example inputs\<close>

text \<open>
  Concrete inputs for the worked examples below. The external services are stand-ins:
  sizes are printed in bytes, every module is loaded from a file under \<open>/site\<close>, and
  \<open>relpath\<close> cuts the start directory off the front of the path.
\<close>

definition ex_splits :: split_dict where
  "ex_splits =
     \<lparr> split_items = [(''train'', \<lparr>num_examples = 60000\<rparr>), (''test'', \<lparr>num_examples = 10000\<rparr>)],
       total_num_examples = Some 60000 \<rparr>"

definition ex_splits_below :: split_dict where
  "ex_splits_below =
     \<lparr> split_items = [(''train'', \<lparr>num_examples = 50000\<rparr>), (''test'', \<lparr>num_examples = 10000\<rparr>)],
       total_num_examples = Some 60000 \<rparr>"

definition ex_features :: features_dict where
  "ex_features = FeaturesDict ''FeaturesDict'' [(''b'', Leaf ''leaf2''), (''a'', Leaf ''leaf1'')]"

text \<open>A nested schema with the items of both levels out of order, and the same
  mapping with the items of both levels in order.\<close>

definition ex_deep :: features_dict where
  "ex_deep =
     FeaturesDict ''FeaturesDict''
       [(''b'', Leaf ''leaf2''),
        (''a'', Nested (FeaturesDict ''FeaturesDict'' [(''d'', Leaf ''x''), (''c'', Leaf ''y'')]))]"

definition ex_deep_sorted :: features_dict where
  "ex_deep_sorted =
     FeaturesDict ''FeaturesDict''
       [(''a'', Nested (FeaturesDict ''FeaturesDict'' [(''c'', Leaf ''y''), (''d'', Leaf ''x'')])),
        (''b'', Leaf ''leaf2'')]"

definition ex_nested :: features_dict where
  "ex_nested =
     FeaturesDict ''FeaturesDict''
       [(''a'', Nested (FeaturesDict ''FeaturesDict'' [(''b'', Leaf ''leaf'')]))]"

definition ex_info :: "string list \<Rightarrow> dataset_info" where
  "ex_info us =
     \<lparr> description = ''D'', version = ''1.0.0'', urls = us, size_in_bytes = 100,
       supervised_keys = ''None'', citation = [], features = ex_features,
       splits = ex_splits \<rparr>"

definition ex_configs :: "builder_config list" where
  "ex_configs =
     [\<lparr> config_name = ''first'', config_version = ''0.1.0'', config_description = ''one'' \<rparr>,
      \<lparr> config_name = ''second'', config_version = ''0.2.0'', config_description = ''two'' \<rparr>]"

text \<open>A builder without configurations, and one with the two configurations above whose
  info record depends on the configuration it was built with.\<close>

definition ex_builder :: "string \<Rightarrow> string \<Rightarrow> builder" where
  "ex_builder n m =
     \<lparr> name = n, module = m, cls_name = ''Cls'', builder_configs = [],
       BUILDER_CONFIGS = [], builder_config_cls = ''NoneType'',
       info = ex_info [''http://x''] \<rparr>"

definition ex_multi :: "string \<Rightarrow> builder" where
  "ex_multi c =
     \<lparr> name = ''multi'', module = ''tensorflow_datasets.text.multi'', cls_name = ''Multi'',
       builder_configs = map (\<lambda>c. (config_name c, c)) ex_configs,
       BUILDER_CONFIGS = ex_configs, builder_config_cls = ''MultiConfig'',
       info = (ex_info [''http://'' @ c])
                \<lparr> supervised_keys := ''keys-'' @ c, citation := ''cite-'' @ c \<rparr> \<rparr>"

definition ex_modules :: "(string \<times> string) list" where
  "ex_modules =
     [(''zeta'', ''tensorflow_datasets.image.zeta''),
      (''alpha'', ''tensorflow_datasets.image.alpha''),
      (''mid'', ''tensorflow_datasets.image.mid''),
      (''fake'', ''tensorflow_datasets.testing.fake'')]"

text \<open>The example registry. The constructor of \<open>image_label_folder\<close> needs the extra
  argument \<open>dataset_name\<close>: without it the call raises \<open>TypeError\<close>.\<close>

definition ex_tfds_builder :: "string \<Rightarrow> builder_kwargs \<Rightarrow> error + builder" where
  "ex_tfds_builder n kw =
     (if n = ''multi'' then
        (case kw of Config c \<Rightarrow> Inr (ex_multi (config_name c)) | _ \<Rightarrow> Inr (ex_multi ''first''))
      else if n = ''image_label_folder'' then
        (case kw of
           DatasetName d \<Rightarrow> Inr (ex_builder n ''tensorflow_datasets.image.image_folder'')
         | _ \<Rightarrow> Inl TypeError)
      else
        (case map_of ex_modules n of
           None \<Rightarrow> Inl DatasetNotFoundError
         | Some m \<Rightarrow> Inr (ex_builder n m)))"

definition ex_env :: env where
  "ex_env =
     \<lparr> list_builders = [''zeta'', ''image_label_folder'', ''fake'', ''alpha'', ''mid''],
       tfds_builder = ex_tfds_builder,
       size_str = (\<lambda>n. dec_digits n @ '' bytes''),
       sys_modules_file = (\<lambda>m. Some (''/site/'' @ replace_char CHR ''.'' ''/'' m @ ''.pyc'')),
       tfds_dir = ''/site/tensorflow_datasets'',
       relpath = (\<lambda>p start. if take (length start) p = start then drop (Suc (length start)) p else p) \<rparr>"

definition ex_mnist :: builder where
  "ex_mnist = ex_builder ''mnist'' ''tensorflow_datasets.image.mnist''"

section \<open>Properties of the statistics renderer\<close>

lemma mset_sort_reverse: "mset (sort_reverse xs) = mset xs"
  by (simp add: sort_reverse_def)

lemma sorted_rev_sort_reverse: "sorted (rev (sort_reverse xs))"
  by (simp add: sort_reverse_def)

lemma sorted_map_fst_lex:
  fixes xs :: "('a::linorder \<times> 'b::linorder) list"
  shows "sorted xs \<Longrightarrow> sorted (map fst xs)"
  by (induction xs) (auto simp: less_eq_prod_def)

lemma sorted_rev_hd_greatest:
  "sorted (rev xs) \<Longrightarrow> x \<in> set xs \<Longrightarrow> x \<le> hd xs"
  by (cases xs) (auto simp: sorted_append)

lemma ex_stats_sorted:
  "stats_sorted ex_splits 60000 = [(60000, ''TRAIN''), (60000, ''ALL''), (10000, ''TEST'')]"
  by code_simp

lemma ex_stats_sorted_below:
  "stats_sorted ex_splits_below 60000 = [(60000, ''ALL''), (50000, ''TRAIN''), (10000, ''TEST'')]"
  by code_simp

lemma ex_stats_rows:
  "stats_row (60000, ''TRAIN'') = ''TRAIN      |     60,000''"
  "stats_row (60000, ''ALL'') = ''ALL        |     60,000''"
  "stats_row (10000, ''TEST'') = ''TEST       |     10,000''"
  by code_simp+

text \<open>
  Claim C9. When the total example count is zero or unset, the statistics renderer
  returns exactly the text \<open>None computed\<close>. The renderer is a total function into
  strings: no branch of it raises.
\<close>

theorem stats_sentinel:
  "total_num_examples sp = None \<or> total_num_examples sp = Some 0 \<Longrightarrow>
   make_statistics_information sp = ''None computed''"
  by (auto simp: make_statistics_information_def)

theorem stats_sentinel_witness:
  "make_statistics_information (ex_splits\<lparr>total_num_examples := None\<rparr>) = ''None computed''
 \<and> make_statistics_information (ex_splits\<lparr>total_num_examples := Some 0\<rparr>) = ''None computed''"
  using stats_sentinel [of "ex_splits\<lparr>total_num_examples := None\<rparr>"]
        stats_sentinel [of "ex_splits\<lparr>total_num_examples := Some 0\<rparr>"]
  by simp

text \<open>
  Claim C2, as the code has it. The claim puts the \<open>ALL\<close> row first and, for total 60000
  and splits train 60000, test 10000, gives the order ALL, TRAIN, TEST. The script sorts
  the pairs (count, label) in descending order, so rows with equal counts are ordered by
  descending label, and \<open>TRAIN\<close> comes before \<open>ALL\<close>: the order is TRAIN, ALL, TEST.
\<close>

theorem statistics_all_first_counterexample:
  "make_statistics_information ex_splits =
     STATISTICS_TABLE (join newline
       [''TRAIN      |     60,000'', ''ALL        |     60,000'', ''TEST       |     10,000''])
 \<and> make_statistics_information ex_splits \<noteq>
     STATISTICS_TABLE (join newline
       [''ALL        |     60,000'', ''TRAIN      |     60,000'', ''TEST       |     10,000''])"
  by (simp add: make_statistics_information_def ex_splits_def ex_stats_sorted [unfolded ex_splits_def]
      ex_stats_rows STATISTICS_TABLE_def newline_def)

text \<open>
  Claim C2, amended. For a nonzero total \<open>n\<close> the table holds the rows of
  \<open>stats_sorted\<close>: the row \<open>(n, ALL)\<close> and one row per split with its count and its
  upper-cased name, in descending order of the pair (count, label), hence in descending
  order of the count. The \<open>ALL\<close> row is the first row when no split row is above
  \<open>(n, ALL)\<close> in that order.
\<close>

theorem statistics_rows_sorted:
  assumes "total_num_examples sp = Some n" and "n \<noteq> 0"
  shows "make_statistics_information sp =
           STATISTICS_TABLE (join newline (map stats_row (stats_sorted sp n)))
       \<and> mset (stats_sorted sp n) =
           mset ((n, ''ALL'') #
                 map (\<lambda>(split_name, si). (num_examples si, upper split_name)) (split_items sp))
       \<and> sorted (rev (stats_sorted sp n))
       \<and> sorted (rev (map fst (stats_sorted sp n)))
       \<and> ((\<forall>(split_name, si) \<in> set (split_items sp).
              (num_examples si, upper split_name) \<le> (n, ''ALL''))
            \<longrightarrow> hd (stats_sorted sp n) = (n, ''ALL''))"
proof -
  let ?rows = "stats_sorted sp n"
  have render: "make_statistics_information sp =
      STATISTICS_TABLE (join newline (map stats_row ?rows))"
    using assms by (simp add: make_statistics_information_def)
  have perm: "mset ?rows = mset (stats_unsorted sp n)"
    by (simp add: stats_sorted_def mset_sort_reverse)
  have desc: "sorted (rev ?rows)"
    by (simp add: stats_sorted_def sorted_rev_sort_reverse)
  have desc_fst: "sorted (rev (map fst ?rows))"
    using sorted_map_fst_lex [OF desc] by (simp add: rev_map)
  have first: "hd ?rows = (n, ''ALL'')"
    if below: "\<forall>(split_name, si) \<in> set (split_items sp).
                 (num_examples si, upper split_name) \<le> (n, ''ALL'')"
  proof -
    have mem: "set ?rows = set (stats_unsorted sp n)"
      using perm by (metis set_mset_mset)
    have all_in: "(n, ''ALL'') \<in> set ?rows"
      by (simp add: mem stats_unsorted_def)
    then have ge: "(n, ''ALL'') \<le> hd ?rows"
      by (rule sorted_rev_hd_greatest [OF desc])
    have "?rows \<noteq> []" using all_in by auto
    then have "hd ?rows \<in> set (stats_unsorted sp n)"
      using mem by (metis hd_in_set)
    then have "hd ?rows \<le> (n, ''ALL'')"
      using below by (auto simp: stats_unsorted_def)
    from this ge show ?thesis by (rule antisym)
  qed
  from render perm desc desc_fst first show ?thesis
    by (simp add: stats_unsorted_def)
qed

theorem statistics_rows_sorted_witness:
  "make_statistics_information ex_splits =
     STATISTICS_TABLE (join newline
       [''TRAIN      |     60,000'', ''ALL        |     60,000'', ''TEST       |     10,000''])
   \<and> sorted (rev (stats_sorted ex_splits 60000))
   \<and> sorted (rev (map fst (stats_sorted ex_splits 60000)))
   \<and> hd (stats_sorted ex_splits_below 60000) = (60000, ''ALL'')"
proof -
  have t: "total_num_examples ex_splits = Some 60000" by (simp add: ex_splits_def)
  have t': "total_num_examples ex_splits_below = Some 60000" by (simp add: ex_splits_below_def)
  have n: "(60000::int) \<noteq> 0" by simp
  have below: "\<forall>(split_name, si) \<in> set (split_items ex_splits_below).
      (num_examples si, upper split_name) \<le> (60000, ''ALL'')"
    by (simp add: ex_splits_below_def less_eq_prod_def)
  from statistics_rows_sorted [OF t n] statistics_rows_sorted [OF t' n] below show ?thesis
    by (simp add: ex_stats_sorted ex_stats_rows newline_def)
qed

section \<open>Properties of the feature-tree renderer\<close>

lemma join_append:
  "xs \<noteq> [] \<Longrightarrow> ys \<noteq> [] \<Longrightarrow> join sep (xs @ ys) = join sep xs @ sep @ join sep ys"
  by (induction sep xs rule: join.induct) (auto simp: neq_Nil_conv)

lemma join_Cons: "ys \<noteq> [] \<Longrightarrow> join sep (x # ys) = x @ sep @ join sep ys"
  by (cases ys) auto

text \<open>The line of one key, as the loop body of the renderer builds it.\<close>

lemma pprint_lines:
  "pprint_features_dict (FeaturesDict tn kvs) i p =
     join newline
       ([(if p then replicate i CHR '' '' else []) @ tn @ ''({''] @
        map (\<lambda>k. replicate (i + 4) CHR '' '' @ sq @ k @ sq @ '': '' @
                  (case map_of kvs k of
                     Some (Nested d) \<Rightarrow> pprint_features_dict d (i + 4) False
                   | Some (Leaf s) \<Rightarrow> s
                   | None \<Rightarrow> []) @ '','')
            (sort (map fst kvs)) @
        [replicate i CHR '' '' @ ''})''])"
  by (simp add: pprint_features_dict.simps Let_def sq_def)

lemma ex_pprint_sorted_input:
  "pprint_features_dict (FeaturesDict ''FeaturesDict'' [(''a'', Leaf ''leaf1''), (''b'', Leaf ''leaf2'')]) 0 True =
     ''FeaturesDict({'' @ newline @
     ''    '' @ sq @ ''a'' @ sq @ '': leaf1,'' @ newline @
     ''    '' @ sq @ ''b'' @ sq @ '': leaf2,'' @ newline @
     ''})''"
  by code_simp

lemma ex_pprint_nested:
  "pprint_features_dict ex_nested 0 True =
     ''FeaturesDict({'' @ newline @
     ''    '' @ sq @ ''a'' @ sq @ '': FeaturesDict({'' @ newline @
     ''        '' @ sq @ ''b'' @ sq @ '': leaf,'' @ newline @
     ''    }),'' @ newline @
     ''})''"
  by code_simp


lemma same_render:
  "same_feature v v' \<Longrightarrow>
     (\<forall>i. (case v' of Nested d \<Rightarrow> pprint_features_dict d i False | Leaf s \<Rightarrow> s) =
          (case v of Nested d \<Rightarrow> pprint_features_dict d i False | Leaf s \<Rightarrow> s))"
  "same_schema d d' \<Longrightarrow> (\<forall>i p. pprint_features_dict d' i p = pprint_features_dict d i p)"
proof (induction rule: same_feature_same_schema.inducts)
  case (same_leaf s)
  show ?case by simp
next
  case (same_nested d d')
  then show ?case by simp
next
  case (same_dict kvs kvs' tn)
  have keys: "sort (map fst kvs') = sort (map fst kvs)"
    using same_dict(1-3) by (intro sorted_distinct_set_unique) simp_all
  show ?case
  proof (intro allI)
    fix i p
    have "map (\<lambda>k. replicate (i + 4) CHR '' '' @ sq @ k @ sq @ '': '' @
                  (case map_of kvs' k of
                     Some (Nested d) \<Rightarrow> pprint_features_dict d (i + 4) False
                   | Some (Leaf s) \<Rightarrow> s
                   | None \<Rightarrow> []) @ '','') (sort (map fst kvs)) =
          map (\<lambda>k. replicate (i + 4) CHR '' '' @ sq @ k @ sq @ '': '' @
                  (case map_of kvs k of
                     Some (Nested d) \<Rightarrow> pprint_features_dict d (i + 4) False
                   | Some (Leaf s) \<Rightarrow> s
                   | None \<Rightarrow> []) @ '','') (sort (map fst kvs))"
    proof (rule map_cong [OF refl])
      fix k assume "k \<in> set (sort (map fst kvs))"
      then have "k \<in> set (map fst kvs)" by simp
      with same_dict(4) obtain v v' where v: "map_of kvs k = Some v"
        and v': "map_of kvs' k = Some v'"
        and eq: "\<forall>i. (case v' of Nested d \<Rightarrow> pprint_features_dict d i False | Leaf s \<Rightarrow> s) =
          (case v of Nested d \<Rightarrow> pprint_features_dict d i False | Leaf s \<Rightarrow> s)"
        by blast
      from eq [rule_format, of "i + 4"] v v'
      show "replicate (i + 4) CHR '' '' @ sq @ k @ sq @ '': '' @
                  (case map_of kvs' k of
                     Some (Nested d) \<Rightarrow> pprint_features_dict d (i + 4) False
                   | Some (Leaf s) \<Rightarrow> s
                   | None \<Rightarrow> []) @ '','' =
            replicate (i + 4) CHR '' '' @ sq @ k @ sq @ '': '' @
                  (case map_of kvs k of
                     Some (Nested d) \<Rightarrow> pprint_features_dict d (i + 4) False
                   | Some (Leaf s) \<Rightarrow> s
                   | None \<Rightarrow> []) @ '',''"
        by (simp split: feature.splits)
    qed
    then show "pprint_features_dict (FeaturesDict tn kvs') i p =
               pprint_features_dict (FeaturesDict tn kvs) i p"
      by (simp only: pprint_lines keys)
  qed
qed

lemma ex_deep_same: "same_schema ex_deep_sorted ex_deep"
proof -
  have inner: "same_schema
      (FeaturesDict ''FeaturesDict'' [(''c'', Leaf ''y''), (''d'', Leaf ''x'')])
      (FeaturesDict ''FeaturesDict'' [(''d'', Leaf ''x''), (''c'', Leaf ''y'')])"
    by (rule same_dict) (auto intro: same_leaf)
  show ?thesis
    unfolding ex_deep_def ex_deep_sorted_def
    by (rule same_dict) (auto intro: same_leaf same_nested inner)
qed

lemma ex_pprint_deep_sorted:
  "pprint_features_dict ex_deep_sorted 0 True =
     ''FeaturesDict({'' @ newline @
     ''    '' @ sq @ ''a'' @ sq @ '': FeaturesDict({'' @ newline @
     ''        '' @ sq @ ''c'' @ sq @ '': y,'' @ newline @
     ''        '' @ sq @ ''d'' @ sq @ '': x,'' @ newline @
     ''    }),'' @ newline @
     ''    '' @ sq @ ''b'' @ sq @ '': leaf2,'' @ newline @
     ''})''"
  by code_simp

lemma ex_features_same:
  "same_schema (FeaturesDict ''FeaturesDict'' [(''a'', Leaf ''leaf1''), (''b'', Leaf ''leaf2'')])
     ex_features"
  unfolding ex_features_def by (rule same_dict) (auto intro: same_leaf)

text \<open>
  Claim C6. The renderer emits one entry line per key, in lexicographic order of the keys,
  at every level: the lines between the first and the last line of a call are the entry
  lines of a sorted arrangement \<open>ks\<close> of the keys, each holding the key and the text of
  its value, which for a nested schema is the rendering of that sub-mapping by the same
  renderer. The text does not depend on the order of the items of the input mapping or
  of any of its sub-mappings: two schema objects that hold the same mapping render to
  the same text. The schema \<open>{b: leaf2, a: leaf1}\<close> renders key \<open>a\<close> before key \<open>b\<close>.
\<close>

theorem pprint_keys_sorted:
  "(same_schema d d' \<longrightarrow> pprint_features_dict d' i p = pprint_features_dict d i p)
 \<and> (\<exists>ks. sorted ks \<and> mset ks = mset (map fst kvs)
        \<and> pprint_features_dict (FeaturesDict tn kvs) i p =
            join newline
              ([(if p then replicate i CHR '' '' else []) @ tn @ ''({''] @
               map (\<lambda>k. replicate (i + 4) CHR '' '' @ sq @ k @ sq @ '': '' @
                         (case map_of kvs k of
                            Some (Nested sub) \<Rightarrow> pprint_features_dict sub (i + 4) False
                          | Some (Leaf s) \<Rightarrow> s
                          | None \<Rightarrow> []) @ '','') ks @
               [replicate i CHR '' '' @ ''})'']))"
proof (intro conjI impI)
  assume "same_schema d d'"
  then show "pprint_features_dict d' i p = pprint_features_dict d i p"
    by (simp add: same_render(2))
next
  have "sorted (sort (map fst kvs))" and "mset (sort (map fst kvs)) = mset (map fst kvs)"
    by simp_all
  with pprint_lines [of tn kvs i p]
  show "\<exists>ks. sorted ks \<and> mset ks = mset (map fst kvs)
        \<and> pprint_features_dict (FeaturesDict tn kvs) i p =
            join newline
              ([(if p then replicate i CHR '' '' else []) @ tn @ ''({''] @
               map (\<lambda>k. replicate (i + 4) CHR '' '' @ sq @ k @ sq @ '': '' @
                         (case map_of kvs k of
                            Some (Nested sub) \<Rightarrow> pprint_features_dict sub (i + 4) False
                          | Some (Leaf s) \<Rightarrow> s
                          | None \<Rightarrow> []) @ '','') ks @
               [replicate i CHR '' '' @ ''})''])"
    by (intro exI [of _ "sort (map fst kvs)"] conjI)
qed

theorem pprint_keys_sorted_witness:
  "pprint_features_dict ex_features 0 True =
     ''FeaturesDict({'' @ newline @
     ''    '' @ sq @ ''a'' @ sq @ '': leaf1,'' @ newline @
     ''    '' @ sq @ ''b'' @ sq @ '': leaf2,'' @ newline @
     ''})''
 \<and> pprint_features_dict ex_deep 0 True =
     ''FeaturesDict({'' @ newline @
     ''    '' @ sq @ ''a'' @ sq @ '': FeaturesDict({'' @ newline @
     ''        '' @ sq @ ''c'' @ sq @ '': y,'' @ newline @
     ''        '' @ sq @ ''d'' @ sq @ '': x,'' @ newline @
     ''    }),'' @ newline @
     ''    '' @ sq @ ''b'' @ sq @ '': leaf2,'' @ newline @
     ''})''"
proof -
  from pprint_keys_sorted
         [of "FeaturesDict ''FeaturesDict'' [(''a'', Leaf ''leaf1''), (''b'', Leaf ''leaf2'')]"
             ex_features 0 True]
       ex_features_same
  have a: "pprint_features_dict ex_features 0 True =
      pprint_features_dict
        (FeaturesDict ''FeaturesDict'' [(''a'', Leaf ''leaf1''), (''b'', Leaf ''leaf2'')]) 0 True"
    by blast
  from pprint_keys_sorted [of ex_deep_sorted ex_deep 0 True] ex_deep_same
  have b: "pprint_features_dict ex_deep 0 True = pprint_features_dict ex_deep_sorted 0 True"
    by blast
  from a b show ?thesis
    by (simp only: ex_pprint_sorted_input ex_pprint_deep_sorted)
qed

lemma pprint_first_line:
  "pprint_features_dict (FeaturesDict tn kvs) i p =
     (if p then replicate i CHR '' '' else []) @ tn @ ''({'' @ newline @
     join newline
       (map (\<lambda>k. replicate (i + 4) CHR '' '' @ sq @ k @ sq @ '': '' @
                  (case map_of kvs k of
                     Some (Nested d) \<Rightarrow> pprint_features_dict d (i + 4) False
                   | Some (Leaf s) \<Rightarrow> s
                   | None \<Rightarrow> []) @ '','')
            (sort (map fst kvs)) @
        [replicate i CHR '' '' @ ''})''])"
  unfolding pprint_lines by (subst append_Cons, subst join_Cons) simp_all

text \<open>
  Claim C7, amended. Every call, outermost or nested, starts its first line with the type
  name of the container. What \<open>add_prefix\<close> switches is the indentation of the first
  line: the outermost call writes it and a nested call omits it. The value of a key that
  holds a nested schema is rendered by a call with 4 more indent spaces and without that
  indentation prefix; the value of a leaf is its plain text.
\<close>

theorem pprint_prefix_and_nesting:
  "pprint_features_dict (FeaturesDict tn kvs) i True =
     replicate i CHR '' '' @ pprint_features_dict (FeaturesDict tn kvs) i False
 \<and> (\<exists>rest. pprint_features_dict (FeaturesDict tn kvs) i False = tn @ ''({'' @ newline @ rest)
 \<and> (\<forall>k v. map_of kvs k = Some v \<longrightarrow>
       (\<exists>before after.
           pprint_features_dict (FeaturesDict tn kvs) i p =
             before @ newline @
             replicate (i + 4) CHR '' '' @ sq @ k @ sq @ '': '' @
             (case v of Nested d \<Rightarrow> pprint_features_dict d (i + 4) False | Leaf s \<Rightarrow> s) @
             '','' @ newline @ after))"
proof (intro conjI allI impI)
  show "pprint_features_dict (FeaturesDict tn kvs) i True =
     replicate i CHR '' '' @ pprint_features_dict (FeaturesDict tn kvs) i False"
    by (simp add: pprint_first_line)
next
  show "\<exists>rest. pprint_features_dict (FeaturesDict tn kvs) i False = tn @ ''({'' @ newline @ rest"
    by (simp add: pprint_first_line)
next
  fix k v
  assume found: "map_of kvs k = Some v"
  let ?entry = "\<lambda>k. replicate (i + 4) CHR '' '' @ sq @ k @ sq @ '': '' @
                  (case map_of kvs k of
                     Some (Nested d) \<Rightarrow> pprint_features_dict d (i + 4) False
                   | Some (Leaf s) \<Rightarrow> s
                   | None \<Rightarrow> []) @ '',''"
  let ?first = "(if p then replicate i CHR '' '' else []) @ tn @ ''({''"
  let ?last = "replicate i CHR '' '' @ ''})''"
  from found have "(k, v) \<in> set kvs"
    by (rule map_of_SomeD)
  then have "k \<in> set (sort (map fst kvs))"
    by force
  then obtain ks1 ks2 where ks: "sort (map fst kvs) = ks1 @ k # ks2"
    by (meson split_list)
  have "pprint_features_dict (FeaturesDict tn kvs) i p =
      join newline ((?first # map ?entry ks1) @ (?entry k # (map ?entry ks2 @ [?last])))"
    by (simp add: pprint_lines ks)
  also have "\<dots> = join newline (?first # map ?entry ks1) @ newline @ ?entry k @ newline @
      join newline (map ?entry ks2 @ [?last])"
    by (subst join_append, simp, simp, subst join_Cons, simp, simp)
  finally have "pprint_features_dict (FeaturesDict tn kvs) i p =
      join newline (?first # map ?entry ks1) @ newline @
      replicate (i + 4) CHR '' '' @ sq @ k @ sq @ '': '' @
      (case v of Nested d \<Rightarrow> pprint_features_dict d (i + 4) False | Leaf s \<Rightarrow> s) @
      '','' @ newline @ join newline (map ?entry ks2 @ [?last])"
    using found by (simp split: feature.splits)
  then show "\<exists>before after.
           pprint_features_dict (FeaturesDict tn kvs) i p =
             before @ newline @
             replicate (i + 4) CHR '' '' @ sq @ k @ sq @ '': '' @
             (case v of Nested d \<Rightarrow> pprint_features_dict d (i + 4) False | Leaf s \<Rightarrow> s) @
             '','' @ newline @ after"
    by blast
qed

theorem pprint_prefix_and_nesting_witness:
  "pprint_features_dict ex_nested 2 True = ''  '' @ pprint_features_dict ex_nested 2 False
 \<and> (\<exists>rest. pprint_features_dict ex_nested 2 False = ''FeaturesDict({'' @ newline @ rest)
 \<and> (\<exists>before after.
        pprint_features_dict ex_nested 2 True =
          before @ newline @ ''      '' @ sq @ ''a'' @ sq @ '': '' @
          pprint_features_dict (FeaturesDict ''FeaturesDict'' [(''b'', Leaf ''leaf'')]) 6 False @
          '','' @ newline @ after)"
proof -
  let ?inner = "FeaturesDict ''FeaturesDict'' [(''b'', Leaf ''leaf'')]"
  let ?kvs = "[(''a'', Nested ?inner)]"
  have found: "map_of ?kvs ''a'' = Some (Nested ?inner)"
    by simp
  have r: "replicate 2 CHR '' '' = ''  ''" "replicate (2 + 4) CHR '' '' = ''      ''"
    "replicate 6 CHR '' '' = ''      ''"
    by (simp_all add: numeral_eq_Suc)
  note T = pprint_prefix_and_nesting [of "''FeaturesDict''" ?kvs 2 True]
  from T have a: "pprint_features_dict (FeaturesDict ''FeaturesDict'' ?kvs) 2 True =
      ''  '' @ pprint_features_dict (FeaturesDict ''FeaturesDict'' ?kvs) 2 False"
    by (simp only: r)
  from T have b: "\<exists>rest. pprint_features_dict (FeaturesDict ''FeaturesDict'' ?kvs) 2 False =
      ''FeaturesDict({'' @ newline @ rest"
    by simp
  from T have "map_of ?kvs ''a'' = Some (Nested ?inner) \<longrightarrow>
      (\<exists>before after. pprint_features_dict (FeaturesDict ''FeaturesDict'' ?kvs) 2 True =
          before @ newline @ replicate (2 + 4) CHR '' '' @ sq @ ''a'' @ sq @ '': '' @
          (case Nested ?inner of Nested d \<Rightarrow> pprint_features_dict d (2 + 4) False | Leaf s \<Rightarrow> s) @
          '','' @ newline @ after)"
    by blast
  with found have c: "\<exists>before after. pprint_features_dict (FeaturesDict ''FeaturesDict'' ?kvs) 2 True =
          before @ newline @ ''      '' @ sq @ ''a'' @ sq @ '': '' @
          pprint_features_dict ?inner 6 False @ '','' @ newline @ after"
    by (simp add: r)
  from a b c show ?thesis
    unfolding ex_nested_def by blast
qed

text \<open>
  Claim C7, as the code has it. The claim says that nested calls omit the type name of the
  container. The nested schema of \<open>ex_nested\<close> is rendered with its type name
  \<open>FeaturesDict\<close> after the key.
\<close>

theorem pprint_type_name_counterexample:
  "pprint_features_dict ex_nested 0 True =
     ''FeaturesDict({'' @ newline @
     ''    '' @ sq @ ''a'' @ sq @ '': FeaturesDict({'' @ newline @
     ''        '' @ sq @ ''b'' @ sq @ '': leaf,'' @ newline @
     ''    }),'' @ newline @
     ''})''
 \<and> pprint_features_dict ex_nested 0 True \<noteq>
     ''FeaturesDict({'' @ newline @
     ''    '' @ sq @ ''a'' @ sq @ '': ({'' @ newline @
     ''        '' @ sq @ ''b'' @ sq @ '': leaf,'' @ newline @
     ''    }),'' @ newline @
     ''})''"
  by (simp add: ex_pprint_nested sq_def newline_def)

section \<open>Properties of the URL field and of the JSON-LD record\<close>

lemma url_from_info_cases:
  "url_from_info i =
     (if urls i = [] \<or> hd (urls i) = [] then ''<no known url>'' else hd (urls i))"
  by (simp add: url_from_info_def split: list.splits)

text \<open>
  Claim C10, amended. The entry of a builder without configurations is rendered whatever
  the URL sequence holds, and its single URL field is the text \<open><no known url>\<close> when
  the URL sequence is empty or its first URL is the empty string; otherwise it is the
  first URL of the sequence.
\<close>

theorem url_field_sentinel:
  assumes "builder_configs b = []" and "sys_modules_file E (module b) = Some f"
  shows "\<exists>kw. entry_args E b = Inr kw
           \<and> document_single_builder E b = Inr (DATASET_ENTRY kw)
           \<and> en_url kw =
               (if urls (info b) = [] \<or> hd (urls (info b)) = [] then ''<no known url>''
                else hd (urls (info b)))"
proof -
  from assms(2) obtain cu where cu: "cls_url E (module b) = Inr cu"
    by (simp add: cls_url_def Let_def)
  then obtain kw where kw: "entry_args E b = Inr kw"
    and url: "en_url kw = url_from_info (info b)"
    by (simp add: entry_args_def Let_def)
  from assms kw have "document_single_builder E b = Inr (DATASET_ENTRY kw)"
    by (simp add: document_single_builder_def)
  with kw url show ?thesis
    by (auto simp: url_from_info_cases)
qed

theorem url_field_sentinel_witness:
  "(\<exists>kw. document_single_builder ex_env (ex_mnist\<lparr>info := ex_info []\<rparr>) = Inr (DATASET_ENTRY kw)
        \<and> en_url kw = ''<no known url>'')
 \<and> (\<exists>kw. document_single_builder ex_env ex_mnist = Inr (DATASET_ENTRY kw)
        \<and> en_url kw = ''http://x'')"
proof -
  have c: "builder_configs (ex_mnist\<lparr>info := ex_info []\<rparr>) = []" "builder_configs ex_mnist = []"
    by (simp_all add: ex_mnist_def ex_builder_def)
  have f: "sys_modules_file ex_env (module (ex_mnist\<lparr>info := ex_info []\<rparr>)) =
             Some (''/site/'' @ replace_char CHR ''.'' ''/'' (module ex_mnist) @ ''.pyc'')"
     "sys_modules_file ex_env (module ex_mnist) =
             Some (''/site/'' @ replace_char CHR ''.'' ''/'' (module ex_mnist) @ ''.pyc'')"
    by (simp_all add: ex_env_def)
  from url_field_sentinel [OF c(1) f(1)]
  have a: "\<exists>kw. document_single_builder ex_env (ex_mnist\<lparr>info := ex_info []\<rparr>) =
      Inr (DATASET_ENTRY kw) \<and> en_url kw = ''<no known url>''"
    by (auto simp: ex_mnist_def ex_builder_def ex_info_def)
  from url_field_sentinel [OF c(2) f(2)]
  have b: "\<exists>kw. document_single_builder ex_env ex_mnist =
      Inr (DATASET_ENTRY kw) \<and> en_url kw = ''http://x''"
    by (auto simp: ex_mnist_def ex_builder_def ex_info_def)
  from a b show ?thesis ..
qed

text \<open>
  Claim C10, as the code has it. The claim gives the first URL for every non-empty URL
  sequence. For the sequence \<open>["", "http://x"]\<close> the first URL is the empty string,
  which is false in the \<open>or\<close> of \<open>url_from_info\<close>: the field is \<open><no known url>\<close>.
\<close>

theorem first_url_counterexample:
  "urls (ex_info ['''', ''http://x'']) \<noteq> []
 \<and> url_from_info (ex_info ['''', ''http://x'']) = ''<no known url>''
 \<and> url_from_info (ex_info ['''', ''http://x'']) \<noteq> hd (urls (ex_info ['''', ''http://x'']))
 \<and> map_sum id en_url (entry_args ex_env (ex_mnist\<lparr>info := ex_info ['''', ''http://x'']\<rparr>)) =
       Inr ''<no known url>''"
  by (simp add: url_from_info_def ex_info_def entry_args_def cls_url_def ex_env_def Let_def)

text \<open>
  Claim C4, evaluated. For the builder \<open>mnist\<close> with description \<open>D\<close>, the URL
  \<open>http://x\<close> and the size text \<open>100 bytes\<close>, \<open>schema_org\<close> returns the text below: the
  last entry is written under the key \<open>size:\<close>, with the colon inside the quotes and none
  after them. For a builder whose URL sequence is empty it raises \<open>IndexError\<close>.
\<close>

theorem schema_org_size_key:
  \<open>schema_org ex_env ex_mnist =
     Inr (''{'' @ newline @
          ''  "@context": "https://schema.org/",'' @ newline @
          ''  "@type": "Dataset",'' @ newline @
          ''  "name": "mnist",'' @ newline @
          ''  "description": "D",'' @ newline @
          ''  "url": http://x,'' @ newline @
          ''  "size:" 100 bytes,'' @ newline @
          ''}'' @ newline)
   \<and> schema_org ex_env (ex_mnist\<lparr>info := ex_info []\<rparr>) = Inl IndexError\<close>
  by code_simp

section \<open>Properties of the grouping\<close>

lemma dd_get_update_same: "dd_get k d (dd_update k f d xs) = f (dd_get k d xs)"
  by (induction xs) auto

lemma dd_get_update_other: "k' \<noteq> k \<Longrightarrow> dd_get k' d' (dd_update k f d xs) = dd_get k' d' xs"
  by (induction xs) auto

lemma leaf_builders_update:
  "mset (leaf_builders (dd_update k (\<lambda>bs. bs @ [b]) [] ld)) = add_mset b (mset (leaf_builders ld))"
  by (induction ld) (auto simp: leaf_builders_def)

lemma grouped_builders_update:
  "mset (grouped_builders (dd_update k2 (dd_update k3 (\<lambda>bs. bs @ [b]) []) [] sd)) =
   add_mset b (mset (grouped_builders sd))"
proof (induction sd)
  case Nil
  show ?case
    using leaf_builders_update [of k3 b "[]"] by (simp add: grouped_builders_def leaf_builders_def)
next
  case (Cons kv sd)
  then show ?case
    by (cases kv) (auto simp: grouped_builders_def leaf_builders_update)
qed

lemma add_builder_Inr:
  assumes "add_builder m ms b = Inr m'"
  obtains m1 m2 m3 where "ms = [m1, m2, m3]"
    and "m' = dd_update m1 (dd_update m2 (dd_update m3 (\<lambda>bs. bs @ [b]) []) []) [] m"
  using assms by (cases "(m, ms, b)" rule: add_builder.cases) auto

lemma add_builder_under:
  assumes "add_builder m (split_str CHR ''.'' (module b)) b = Inr m'"
    and "''testing'' \<notin> set (split_str CHR ''.'' (module b))"
  shows "mset (grouped_builders (dd_get r [] m')) =
         mset (grouped_builders (dd_get r [] m)) + mset (filter (kept_under r) [b])"
proof -
  from assms(1) obtain m1 m2 m3 where ms: "split_str CHR ''.'' (module b) = [m1, m2, m3]"
    and m': "m' = dd_update m1 (dd_update m2 (dd_update m3 (\<lambda>bs. bs @ [b]) []) []) [] m"
    by (rule add_builder_Inr)
  show ?thesis
  proof (cases "r = m1")
    case True
    with ms assms(2) have "kept_under r b" by (simp add: kept_under_def)
    with True show ?thesis
      by (simp add: m' dd_get_update_same grouped_builders_update)
  next
    case False
    with ms have "\<not> kept_under r b" by (simp add: kept_under_def)
    with False show ?thesis
      by (simp add: m' dd_get_update_other)
  qed
qed

lemma group_loop_under:
  "group_loop m bs = Inr m' \<Longrightarrow>
   mset (grouped_builders (dd_get r [] m')) =
   mset (grouped_builders (dd_get r [] m)) + mset (filter (kept_under r) bs)"
proof (induction bs arbitrary: m)
  case Nil
  then show ?case by simp
next
  case (Cons b bs)
  show ?case
  proof (cases "''testing'' \<in> set (split_str CHR ''.'' (module b))")
    case True
    then have "\<not> kept_under r b" by (simp add: kept_under_def)
    with True Cons show ?thesis by (simp add: Let_def)
  next
    case False
    with Cons.prems obtain m1 where
      add: "add_builder m (split_str CHR ''.'' (module b)) b = Inr m1"
      and rest: "group_loop m1 bs = Inr m'"
      by (auto simp: Let_def split: sum.splits)
    from Cons.IH [OF rest] add_builder_under [OF add False, of r]
    show ?thesis by simp
  qed
qed

lemma grouping_contents:
  assumes "make_module_to_builder_dict E ds = Inr m"
  obtains bs where "collect_builders E ds = Inr bs"
    and "mset (grouped_builders m) = mset (filter (kept_under ''tensorflow_datasets'') bs)"
proof -
  from assms obtain bs m0 where bs: "collect_builders E ds = Inr bs"
    and loop: "group_loop [] bs = Inr m0"
    and m: "m = dd_get ''tensorflow_datasets'' [] m0"
    by (auto simp: make_module_to_builder_dict_def split: sum.splits)
  from group_loop_under [OF loop, of "''tensorflow_datasets''"] m
  have "mset (grouped_builders m) = mset (filter (kept_under ''tensorflow_datasets'') bs)"
    by (simp add: grouped_builders_def)
  with bs show ?thesis by (rule that)
qed

text \<open>
  Claim C8. No builder whose module path has a segment \<open>testing\<close> is in the hierarchy the
  grouper returns, whether the builders come from the full enumeration or from an
  explicit list of names; and such a builder is skipped before anything else is done
  with it, so it cannot make the loop fail either.
\<close>

theorem testing_builders_excluded:
  "(make_module_to_builder_dict E ds = Inr m \<longrightarrow>
      (\<forall>b \<in> set (grouped_builders m). ''testing'' \<notin> set (split_str CHR ''.'' (module b))))
 \<and> (''testing'' \<in> set (split_str CHR ''.'' (module b0)) \<longrightarrow>
      group_loop m0 (b0 # bs0) = group_loop m0 bs0)"
proof (intro conjI impI ballI)
  fix b
  assume res: "make_module_to_builder_dict E ds = Inr m" and b: "b \<in> set (grouped_builders m)"
  from res obtain bs where
    "mset (grouped_builders m) = mset (filter (kept_under ''tensorflow_datasets'') bs)"
    by (rule grouping_contents)
  then have "set (grouped_builders m) = set (filter (kept_under ''tensorflow_datasets'') bs)"
    by (metis set_mset_mset)
  with b have "kept_under ''tensorflow_datasets'' b" by simp
  then show "''testing'' \<notin> set (split_str CHR ''.'' (module b))"
    by (simp add: kept_under_def Let_def)
next
  assume "''testing'' \<in> set (split_str CHR ''.'' (module b0))"
  then show "group_loop m0 (b0 # bs0) = group_loop m0 bs0"
    by (simp add: Let_def)
qed

lemma ex_grouping_default:
  "make_module_to_builder_dict ex_env None =
     Inr [(''image'',
           [(''zeta'', [ex_builder ''zeta'' ''tensorflow_datasets.image.zeta'']),
            (''alpha'', [ex_builder ''alpha'' ''tensorflow_datasets.image.alpha'']),
            (''mid'', [ex_builder ''mid'' ''tensorflow_datasets.image.mid'']),
            (''image_folder'',
             [ex_builder ''image_label_folder'' ''tensorflow_datasets.image.image_folder''])])]"
  by code_simp

lemma ex_grouping_explicit:
  "make_module_to_builder_dict ex_env (Some [''fake'', ''zeta'']) =
     Inr [(''image'', [(''zeta'', [ex_builder ''zeta'' ''tensorflow_datasets.image.zeta''])])]"
  by code_simp

lemma ex_fake_testing:
  "''testing'' \<in> set (split_str CHR ''.'' (module (ex_builder ''fake'' ''tensorflow_datasets.testing.fake'')))"
  by code_simp

theorem testing_builders_excluded_witness:
  "ex_builder ''fake'' ''tensorflow_datasets.testing.fake'' \<notin>
     set (grouped_builders
       [(''image'',
         [(''zeta'', [ex_builder ''zeta'' ''tensorflow_datasets.image.zeta'']),
          (''alpha'', [ex_builder ''alpha'' ''tensorflow_datasets.image.alpha'']),
          (''mid'', [ex_builder ''mid'' ''tensorflow_datasets.image.mid'']),
          (''image_folder'',
           [ex_builder ''image_label_folder'' ''tensorflow_datasets.image.image_folder''])])])
 \<and> ex_builder ''fake'' ''tensorflow_datasets.testing.fake'' \<notin>
     set (grouped_builders
       [(''image'', [(''zeta'', [ex_builder ''zeta'' ''tensorflow_datasets.image.zeta''])])])
 \<and> group_loop [] [ex_builder ''fake'' ''tensorflow_datasets.testing.fake''] = Inr []"
proof -
  let ?fake = "ex_builder ''fake'' ''tensorflow_datasets.testing.fake''"
  note T1 = testing_builders_excluded [of ex_env None _ ?fake "[]" "[]"]
  note T2 = testing_builders_excluded
              [of ex_env "Some [''fake'', ''zeta'']" _ ?fake "[]" "[]"]
  from T1 ex_grouping_default ex_fake_testing have a: "?fake \<notin>
     set (grouped_builders
       [(''image'',
         [(''zeta'', [ex_builder ''zeta'' ''tensorflow_datasets.image.zeta'']),
          (''alpha'', [ex_builder ''alpha'' ''tensorflow_datasets.image.alpha'']),
          (''mid'', [ex_builder ''mid'' ''tensorflow_datasets.image.mid'']),
          (''image_folder'',
           [ex_builder ''image_label_folder'' ''tensorflow_datasets.image.image_folder''])])])"
    by blast
  from T2 ex_grouping_explicit ex_fake_testing have b: "?fake \<notin>
     set (grouped_builders
       [(''image'', [(''zeta'', [ex_builder ''zeta'' ''tensorflow_datasets.image.zeta''])])])"
    by blast
  from T1 ex_fake_testing have c: "group_loop [] [?fake] = Inr []"
    by simp
  from a b c show ?thesis by blast
qed



lemma grouped_member:
  assumes "make_module_to_builder_dict E ds = Inr m" and "collect_builders E ds = Inr bs"
    and "b \<in> set bs" and "kept_under ''tensorflow_datasets'' b"
  shows "b \<in> set (grouped_builders m)"
proof -
  from assms(1) obtain bs' where "collect_builders E ds = Inr bs'"
    and eq: "mset (grouped_builders m) = mset (filter (kept_under ''tensorflow_datasets'') bs')"
    by (rule grouping_contents)
  with assms(2) have "bs' = bs" by simp
  with eq have "set (grouped_builders m) = set (filter (kept_under ''tensorflow_datasets'') bs)"
    by (metis set_mset_mset)
  with assms(3,4) show ?thesis by simp
qed

lemma map_err_fails:
  "x \<in> set xs \<Longrightarrow> f x = Inl e \<Longrightarrow> \<exists>e'. map_err f xs = Inl e'"
  by (induction xs) (auto split: sum.splits)

lemma ex_ilf_default:
  "tfds_builder ex_env ''image_label_folder'' (DatasetName ''image_label_folder'') =
     Inr (ex_builder ''image_label_folder'' ''tensorflow_datasets.image.image_folder'')"
  "tfds_builder ex_env ''image_label_folder'' NoKwargs = Inl TypeError"
  by code_simp+

lemma ex_ilf_kept:
  "kept_under ''tensorflow_datasets''
     (ex_builder ''image_label_folder'' ''tensorflow_datasets.image.image_folder'')"
  by code_simp

text \<open>
  Claim C3, amended. In the default enumeration (no dataset list, or an empty one) the
  name \<open>image_label_folder\<close> is filtered out of the names the registry lists, and the
  builder is then built on its own with the extra argument \<open>dataset_name\<close> and appended
  last; so it is in the grouping, provided that its module path starts with the root
  package and has no \<open>testing\<close> segment. When its name is requested explicitly the
  builder is built without the extra argument: on a registry that refuses to build it
  that way the grouper raises and returns no grouping.
\<close>

theorem blacklisted_builder_grouping:
  "((d = None \<or> d = Some []) \<and> make_module_to_builder_dict E d = Inr m \<longrightarrow>
      (\<exists>b bs.
          tfds_builder E ''image_label_folder'' (DatasetName ''image_label_folder'') = Inr b
        \<and> map_err (\<lambda>n. tfds_builder E n NoKwargs)
             (filter (\<lambda>n. n \<noteq> ''image_label_folder'') (list_builders E)) = Inr bs
        \<and> collect_builders E d = Inr (bs @ [b])
        \<and> (kept_under ''tensorflow_datasets'' b \<longrightarrow> b \<in> set (grouped_builders m))))
 \<and> (''image_label_folder'' \<in> set ds
       \<and> tfds_builder E ''image_label_folder'' NoKwargs = Inl e \<longrightarrow>
      (\<exists>e'. make_module_to_builder_dict E (Some ds) = Inl e'))
 \<and> (tfds_builder E ''image_label_folder'' NoKwargs = Inl e \<longrightarrow>
      make_module_to_builder_dict E (Some [''image_label_folder'']) = Inl e)"
proof (intro conjI impI)
  assume "(d = None \<or> d = Some []) \<and> make_module_to_builder_dict E d = Inr m"
  then have d: "d = None \<or> d = Some []" and res: "make_module_to_builder_dict E d = Inr m"
    by simp_all
  from res obtain all where coll: "collect_builders E d = Inr all"
    by (rule grouping_contents)
  with d obtain bs b where
    bs: "map_err (\<lambda>n. tfds_builder E n NoKwargs)
           (filter (\<lambda>n. n \<noteq> ''image_label_folder'') (list_builders E)) = Inr bs"
    and b: "tfds_builder E ''image_label_folder'' (DatasetName ''image_label_folder'') = Inr b"
    and all: "all = bs @ [b]"
    by (auto simp: collect_builders_def BUILDER_BLACKLIST_def split: sum.splits)
  have "b \<in> set (grouped_builders m)" if "kept_under ''tensorflow_datasets'' b"
    using res coll _ that by (rule grouped_member) (simp add: all)
  with bs b coll all show "\<exists>b bs.
          tfds_builder E ''image_label_folder'' (DatasetName ''image_label_folder'') = Inr b
        \<and> map_err (\<lambda>n. tfds_builder E n NoKwargs)
             (filter (\<lambda>n. n \<noteq> ''image_label_folder'') (list_builders E)) = Inr bs
        \<and> collect_builders E d = Inr (bs @ [b])
        \<and> (kept_under ''tensorflow_datasets'' b \<longrightarrow> b \<in> set (grouped_builders m))"
    by blast
next
  assume "''image_label_folder'' \<in> set ds
       \<and> tfds_builder E ''image_label_folder'' NoKwargs = Inl e"
  then have mem: "''image_label_folder'' \<in> set ds"
    and fails: "tfds_builder E ''image_label_folder'' NoKwargs = Inl e"
    by simp_all
  from mem fails obtain e' where
    "map_err (\<lambda>n. tfds_builder E n NoKwargs) ds = Inl e'"
    using map_err_fails [of "''image_label_folder''" ds "\<lambda>n. tfds_builder E n NoKwargs" e]
    by blast
  moreover from mem have "ds \<noteq> []" by auto
  ultimately have "make_module_to_builder_dict E (Some ds) = Inl e'"
    by (simp add: make_module_to_builder_dict_def collect_builders_def)
  then show "\<exists>e'. make_module_to_builder_dict E (Some ds) = Inl e'" ..
next
  assume "tfds_builder E ''image_label_folder'' NoKwargs = Inl e"
  then show "make_module_to_builder_dict E (Some [''image_label_folder'']) = Inl e"
    by (simp add: make_module_to_builder_dict_def collect_builders_def)
qed

theorem blacklisted_builder_grouping_witness:
  "ex_builder ''image_label_folder'' ''tensorflow_datasets.image.image_folder'' \<in>
     set (grouped_builders
       [(''image'',
         [(''zeta'', [ex_builder ''zeta'' ''tensorflow_datasets.image.zeta'']),
          (''alpha'', [ex_builder ''alpha'' ''tensorflow_datasets.image.alpha'']),
          (''mid'', [ex_builder ''mid'' ''tensorflow_datasets.image.mid'']),
          (''image_folder'',
           [ex_builder ''image_label_folder'' ''tensorflow_datasets.image.image_folder''])])])
 \<and> (\<exists>e'. make_module_to_builder_dict ex_env (Some [''zeta'', ''image_label_folder'']) = Inl e')
 \<and> make_module_to_builder_dict ex_env (Some [''image_label_folder'']) = Inl TypeError"
proof -
  let ?ilf = "ex_builder ''image_label_folder'' ''tensorflow_datasets.image.image_folder''"
  let ?m = "[(''image'',
         [(''zeta'', [ex_builder ''zeta'' ''tensorflow_datasets.image.zeta'']),
          (''alpha'', [ex_builder ''alpha'' ''tensorflow_datasets.image.alpha'']),
          (''mid'', [ex_builder ''mid'' ''tensorflow_datasets.image.mid'']),
          (''image_folder'', [?ilf])])]"
  let ?ds = "[''zeta'', ''image_label_folder'']"
  note T = blacklisted_builder_grouping [of None ex_env ?m ?ds TypeError]
  have h1: "(None = None \<or> None = Some []) \<and> make_module_to_builder_dict ex_env None = Inr ?m"
    using ex_grouping_default by simp
  have h2: "''image_label_folder'' \<in> set ?ds
       \<and> tfds_builder ex_env ''image_label_folder'' NoKwargs = Inl TypeError"
    using ex_ilf_default(2) by simp
  from T h1 obtain b where
    "tfds_builder ex_env ''image_label_folder'' (DatasetName ''image_label_folder'') = Inr b"
    and "kept_under ''tensorflow_datasets'' b \<longrightarrow> b \<in> set (grouped_builders ?m)"
    by blast
  with ex_ilf_default(1) ex_ilf_kept have a: "?ilf \<in> set (grouped_builders ?m)"
    by simp
  from T h2 have b: "\<exists>e'. make_module_to_builder_dict ex_env (Some ?ds) = Inl e'"
    by blast
  from T ex_ilf_default(2)
  have c: "make_module_to_builder_dict ex_env (Some [''image_label_folder'']) = Inl TypeError"
    by blast
  from a b c show ?thesis by blast
qed

text \<open>
  Claim C3, as the code has it. The claim says that the default enumeration leaves
  \<open>image_label_folder\<close> out of the grouping and that an explicit request puts it in. For
  the example registry the grouping of the default enumeration holds it, and the
  explicit request, which builds it without the extra argument, raises \<open>TypeError\<close>.
\<close>

theorem blacklist_default_counterexample:
  "map_sum id grouped_names (make_module_to_builder_dict ex_env None) =
     Inr [''zeta'', ''alpha'', ''mid'', ''image_label_folder'']
 \<and> ''image_label_folder'' \<in> set (list_builders ex_env)
 \<and> ''image_label_folder'' \<in> set [''zeta'', ''alpha'', ''mid'', ''image_label_folder'']
 \<and> make_module_to_builder_dict ex_env (Some [''image_label_folder'']) = Inl TypeError"
  by code_simp

section \<open>Properties of the assembled document\<close>























section \<open>Properties of the entry of a builder with configurations\<close>

lemma config_loop_snoc:
  "config_loop E (cs @ [c]) st =
     (case config_loop E cs st of Inl e \<Rightarrow> Inl e | Inr st' \<Rightarrow> config_loop E [c] st')"
  by (induction E cs st rule: config_loop.induct) (auto simp: Let_def split: sum.splits)

lemma config_loop_last:
  assumes "config_loop E (cs @ [c]) st = Inr (bf, io, docs)"
  obtains b1 i1 d1 where "config_loop E cs st = Inr (b1, i1, d1)"
    and "tfds_builder E (name b1) (Config c) = Inr bf" and "io = Some (info bf)"
proof -
  from assms obtain b1 i1 d1 where 1: "config_loop E cs st = Inr (b1, i1, d1)"
    and 2: "config_loop E [c] (b1, i1, d1) = Inr (bf, io, docs)"
    by (auto simp: config_loop_snoc split: sum.splits)
  from 2 have "tfds_builder E (name b1) (Config c) = Inr bf" and "io = Some (info bf)"
    by (auto simp: Let_def split: sum.splits)
  with 1 show ?thesis by (rule that)
qed

text \<open>
  Claim C1, amended. For a builder with one or more configurations, the dataset-level
  fields of the rendered entry (URL, URL list, citation, statistics table,
  supervised-keys text) are taken from the info record of the builder resolved for the
  last configuration in declared order: the variable \<open>info\<close> the template reads is the
  one the last iteration of the loop assigned. With exactly one configuration this is
  the first configuration.
\<close>

theorem dataset_fields_from_last_config:
  assumes "builder_configs b \<noteq> []" and "BUILDER_CONFIGS b = cs @ [c]"
    and "document_single_builder E b = Inr doc"
  shows "\<exists>kw b1 i1 d1 bl.
           with_configs_args E b = Inr kw \<and> doc = DATASET_WITH_CONFIGS_ENTRY kw
         \<and> config_loop E cs (b, None, []) = Inr (b1, i1, d1)
         \<and> tfds_builder E (name b1) (Config c) = Inr bl
         \<and> wc_url kw = url_from_info (info bl)
         \<and> wc_urls kw = format_urls (urls (info bl))
         \<and> wc_citation kw = make_citation (citation (info bl))
         \<and> wc_statistics_information kw = make_statistics_information (splits (info bl))
         \<and> wc_supervised_keys kw = supervised_keys (info bl)"
proof -
  from assms(1,3) obtain kw where kw: "with_configs_args E b = Inr kw"
    and doc: "doc = DATASET_WITH_CONFIGS_ENTRY kw"
    by (auto simp: document_single_builder_def split: option.splits sum.splits)
  from kw obtain bl io docs where
    loop: "config_loop E (BUILDER_CONFIGS b) (b, None, []) = Inr (bl, io, docs)"
    by (auto simp: with_configs_args_def Let_def split: sum.splits)
  from loop [unfolded assms(2)] obtain b1 i1 d1 where
    pre: "config_loop E cs (b, None, []) = Inr (b1, i1, d1)"
    and last: "tfds_builder E (name b1) (Config c) = Inr bl"
    and io: "io = Some (info bl)"
    by (rule config_loop_last)
  from kw loop io have fields:
    "wc_url kw = url_from_info (info bl)"
    "wc_urls kw = format_urls (urls (info bl))"
    "wc_citation kw = make_citation (citation (info bl))"
    "wc_statistics_information kw = make_statistics_information (splits (info bl))"
    "wc_supervised_keys kw = supervised_keys (info bl)"
    by (auto simp: with_configs_args_def Let_def split: sum.splits)
  show ?thesis
    apply (rule exI [of _ kw])
    apply (rule exI [of _ b1])
    apply (rule exI [of _ i1])
    apply (rule exI [of _ d1])
    apply (rule exI [of _ bl])
    apply (intro conjI)
            apply (fact kw doc pre last fields)+
    done
qed


lemma ex_multi_returns:
  "case document_single_builder ex_env (ex_multi ''first'') of
     Inl e \<Rightarrow> False | Inr doc \<Rightarrow> True"
  by code_simp

lemma ex_multi_loop_first:
  "map_sum id fst (config_loop ex_env [hd ex_configs] (ex_multi ''first'', None, [])) =
     Inr (ex_multi ''first'')"
  by code_simp

lemma ex_multi_second:
  "tfds_builder ex_env ''multi'' (Config (last ex_configs)) = Inr (ex_multi ''second'')"
  by code_simp

theorem dataset_fields_from_last_config_witness:
  "\<exists>kw. document_single_builder ex_env (ex_multi ''first'') =
           Inr (DATASET_WITH_CONFIGS_ENTRY kw)
        \<and> wc_url kw = ''http://second''
        \<and> wc_supervised_keys kw = ''keys-second''"
proof -
  let ?b = "ex_multi ''first''"
  have ne: "builder_configs ?b \<noteq> []"
    by (simp add: ex_multi_def ex_configs_def)
  have cfgs: "BUILDER_CONFIGS ?b = [hd ex_configs] @ [last ex_configs]"
    by (simp add: ex_multi_def ex_configs_def)
  from ex_multi_returns obtain doc where doc: "document_single_builder ex_env ?b = Inr doc"
    by (auto split: sum.splits)
  from dataset_fields_from_last_config [OF ne cfgs doc] obtain kw b1 i1 d1 bl where
    eq: "doc = DATASET_WITH_CONFIGS_ENTRY kw"
    and pre: "config_loop ex_env [hd ex_configs] (?b, None, []) = Inr (b1, i1, d1)"
    and last: "tfds_builder ex_env (name b1) (Config (last ex_configs)) = Inr bl"
    and url: "wc_url kw = url_from_info (info bl)"
    and keys: "wc_supervised_keys kw = supervised_keys (info bl)"
    by blast
  from pre ex_multi_loop_first have "b1 = ?b" by simp
  then have "name b1 = ''multi''" by (simp add: ex_multi_def)
  with last ex_multi_second have bl: "bl = ex_multi ''second''" by simp
  have "wc_url kw = ''http://second''"
    unfolding url bl by (simp add: ex_multi_def ex_info_def url_from_info_def)
  moreover have "wc_supervised_keys kw = ''keys-second''"
    unfolding keys bl by (simp add: ex_multi_def ex_info_def)
  ultimately show ?thesis
    using doc eq by blast
qed

text \<open>
  Claim C1, as the code has it. The claim takes the dataset-level fields from the first
  configuration. For the builder \<open>multi\<close> with the configurations \<open>first\<close> and
  \<open>second\<close>, whose info records differ, the URL, the supervised keys and the citation of
  the entry are those resolved for \<open>second\<close>.
\<close>

theorem first_config_counterexample:
  "builder_configs (ex_multi ''first'') \<noteq> []
 \<and> BUILDER_CONFIGS (ex_multi ''first'') = ex_configs
 \<and> tfds_builder ex_env ''multi'' (Config (hd ex_configs)) = Inr (ex_multi ''first'')
 \<and> url_from_info (info (ex_multi ''first'')) = ''http://first''
 \<and> supervised_keys (info (ex_multi ''first'')) = ''keys-first''
 \<and> make_citation (citation (info (ex_multi ''first''))) = CITATION_BLOCK ''cite-first''
 \<and> map_sum id wc_url (with_configs_args ex_env (ex_multi ''first'')) = Inr ''http://second''
 \<and> map_sum id wc_supervised_keys (with_configs_args ex_env (ex_multi ''first'')) =
       Inr ''keys-second''
 \<and> map_sum id wc_citation (with_configs_args ex_env (ex_multi ''first'')) =
       Inr (CITATION_BLOCK ''cite-second'')
 \<and> document_single_builder ex_env (ex_multi ''first'') =
       map_sum id DATASET_WITH_CONFIGS_ENTRY (with_configs_args ex_env (ex_multi ''first''))"
  by code_simp

end
